theory Spec2Isabelle
  imports Complex_Main "HOL-Library.AList"
begin

section \<open>Backtesting engine (ATB/backtesting/backtester.py)\<close>

text \<open>
  The embedding follows class \<open>Backtester\<close>. Python and numpy floats are idealised:
  a finite float is a \<^typ>\<open>real\<close> (no rounding, no overflow, no signed zero). Where the
  source divides, the quotient is a value of type \<open>fval\<close>, which adds the non-finite
  results numpy and pandas produce instead of raising: \<open>x / 0\<close> is an infinity for
  \<open>x \<noteq> 0\<close> and \<open>0 / 0\<close> is NaN.

  The two data frames \<open>signals\<close> and \<open>data\<close> share one index of unique dates and are
  read row by row (\<open>signals.loc[d, 'buy_signal']\<close>, \<open>signals.loc[d, 'sell_signal']\<close>,
  \<open>data.loc[d, 'Close']\<close>), so both together are a list of rows of type \<open>bar\<close>.
\<close>

subsection \<open>Floating-point values with infinities and NaN\<close>

datatype fval = Fin real | PInf | NInf | NaN

fun fneg :: "fval \<Rightarrow> fval" where
  "fneg (Fin a) = Fin (- a)"
| "fneg PInf = NInf"
| "fneg NInf = PInf"
| "fneg NaN = NaN"

fun fadd :: "fval \<Rightarrow> fval \<Rightarrow> fval" where
  "fadd (Fin a) (Fin b) = Fin (a + b)"
| "fadd NaN _ = NaN"
| "fadd _ NaN = NaN"
| "fadd PInf NInf = NaN"
| "fadd NInf PInf = NaN"
| "fadd PInf _ = PInf"
| "fadd _ PInf = PInf"
| "fadd NInf _ = NInf"
| "fadd _ NInf = NInf"

definition fsub :: "fval \<Rightarrow> fval \<Rightarrow> fval" where
  "fsub a b = fadd a (fneg b)"

text \<open>The sign of a value that is not NaN: \<open>-1\<close>, \<open>0\<close> or \<open>1\<close>.\<close>

fun fsgn :: "fval \<Rightarrow> real" where
  "fsgn (Fin a) = sgn a"
| "fsgn PInf = 1"
| "fsgn NInf = - 1"
| "fsgn NaN = 0"

definition inf_of_sign :: "real \<Rightarrow> fval" where
  "inf_of_sign s = (if s = 0 then NaN else if 0 < s then PInf else NInf)"

fun fmul :: "fval \<Rightarrow> fval \<Rightarrow> fval" where
  "fmul (Fin a) (Fin b) = Fin (a * b)"
| "fmul NaN _ = NaN"
| "fmul _ NaN = NaN"
| "fmul a b = inf_of_sign (fsgn a * fsgn b)"

text \<open>
  Division as numpy's \<open>true_divide\<close>: a finite quotient where the divisor is a non-zero
  finite number, \<open>x / 0 = \<plusminus>inf\<close> for \<open>x \<noteq> 0\<close>, \<open>0 / 0 = nan\<close>, \<open>x / \<plusminus>inf = 0\<close> for
  finite \<open>x\<close>, \<open>\<plusminus>inf / \<plusminus>inf = nan\<close>. A zero divisor counts as \<open>+0\<close>.
\<close>

fun fdiv :: "fval \<Rightarrow> fval \<Rightarrow> fval" where
  "fdiv NaN _ = NaN"
| "fdiv _ NaN = NaN"
| "fdiv (Fin a) (Fin b) = (if b = 0 then inf_of_sign (sgn a) else Fin (a / b))"
| "fdiv (Fin a) _ = Fin 0"
| "fdiv a (Fin b) = (if b = 0 then a else inf_of_sign (fsgn a * sgn b))"
| "fdiv _ _ = NaN"

text \<open>Comparisons; every comparison with NaN is false.\<close>

fun fgt :: "fval \<Rightarrow> fval \<Rightarrow> bool" where
  "fgt NaN _ = False"
| "fgt _ NaN = False"
| "fgt (Fin a) (Fin b) = (b < a)"
| "fgt PInf b = (b \<noteq> PInf)"
| "fgt a NInf = (a \<noteq> NInf)"
| "fgt _ _ = False"

fun fle :: "fval \<Rightarrow> fval \<Rightarrow> bool" where
  "fle NaN _ = False"
| "fle _ NaN = False"
| "fle a b = (\<not> fgt a b)"

fun is_finite :: "fval \<Rightarrow> bool" where
  "is_finite (Fin _) = True"
| "is_finite _ = False"

subsection \<open>Data model\<close>

type_synonym date = nat

record bar =
  bar_date :: date
  close :: real
  buy_signal :: bool
  sell_signal :: bool

text \<open>An entry of \<open>self.positions\<close>: the dict with keys quantity, cost, avg_price.\<close>

record position =
  quantity :: int
  cost :: real
  avg_price :: fval

text \<open>
  An entry of \<open>self.trades\<close>. A BUY dict holds date, symbol, quantity, price, cost;
  a SELL dict holds date, symbol, quantity, price, revenue, pnl.
\<close>

datatype trade =
  BUY date string int real real
| SELL date string int real real real

fun trade_pnl :: "trade \<Rightarrow> real option" where
  "trade_pnl (BUY _ _ _ _ _) = None"
| "trade_pnl (SELL _ _ _ _ _ pnl) = Some pnl"

record equity_point =
  date :: date
  balance :: real
  portfolio_value :: real
  equity :: real

text \<open>
  The object state. \<open>self.positions\<close> is a dict; an association list keeps its
  insertion order, which \<open>_update_equity_curve\<close> iterates in.
\<close>

record backtester =
  initial_balance :: real
  current_balance :: real
  positions :: "(string \<times> position) list"
  trades :: "trade list"
  equity_curve :: "equity_point list"

subsection \<open>Trade executor\<close>

definition Backtester :: "real \<Rightarrow> backtester" where
  "Backtester bal =
     \<lparr>initial_balance = bal, current_balance = bal, positions = [], trades = [],
      equity_curve = []\<rparr>"

definition initialize_backtest :: "backtester \<Rightarrow> backtester" where
  "initialize_backtest s =
     s\<lparr>current_balance := initial_balance s, positions := [], trades := [],
       equity_curve := []\<rparr>"

definition execute_buy :: "date \<Rightarrow> string \<Rightarrow> real \<Rightarrow> int \<Rightarrow> backtester \<Rightarrow> backtester" where
  "execute_buy d symbol price qty s =
     (let cst = price * of_int qty in
      if cst > current_balance s then s
      else
        let s1 = s\<lparr>current_balance := current_balance s - cst\<rparr>;
            s2 = (case map_of (positions s1) symbol of
                    Some pos \<Rightarrow>
                      let total_quantity = quantity pos + qty;
                          total_cost = cost pos + cst
                      in s1\<lparr>positions := AList.update symbol
                              (pos\<lparr>quantity := total_quantity, cost := total_cost,
                                   avg_price := fdiv (Fin total_cost) (Fin (of_int total_quantity))\<rparr>)
                              (positions s1)\<rparr>
                  | None \<Rightarrow>
                      s1\<lparr>positions := AList.update symbol
                              \<lparr>quantity = qty, cost = cst, avg_price = Fin price\<rparr>
                              (positions s1)\<rparr>)
        in s2\<lparr>trades := trades s2 @ [BUY d symbol qty price cst]\<rparr>)"

definition execute_sell :: "date \<Rightarrow> string \<Rightarrow> real \<Rightarrow> backtester \<Rightarrow> backtester" where
  "execute_sell d symbol price s =
     (case map_of (positions s) symbol of
        None \<Rightarrow> s
      | Some pos \<Rightarrow>
          let qty = quantity pos;
              revenue = price * of_int qty;
              cst = cost pos;
              pnl = revenue - cst
          in s\<lparr>current_balance := current_balance s + revenue,
               positions := AList.delete symbol (positions s),
               trades := trades s @ [SELL d symbol qty price revenue pnl]\<rparr>)"

definition update_equity_curve :: "date \<Rightarrow> real \<Rightarrow> backtester \<Rightarrow> backtester" where
  "update_equity_curve d current_price s =
     (let pv = foldl (\<lambda>v (symbol, pos). v + of_int (quantity pos) * current_price)
                 (current_balance s) (positions s)
      in s\<lparr>equity_curve := equity_curve s @
             [\<lparr>date = d, balance = current_balance s, portfolio_value = pv, equity = pv\<rparr>]\<rparr>)"

text \<open>
  In \<open>_execute_buy\<close> the price comes from a data frame and is a numpy float, so the
  quotient \<open>total_cost / total_quantity\<close> does not raise for a zero quantity; with the
  constant quantity 100 of \<open>_execute_trades\<close> the divisor is positive in every run.
  \<open>run_backtest\<close> downloads the data, asks the strategy for the signals and then calls
  \<open>_initialize_backtest\<close>, \<open>_execute_trades\<close> and \<open>_calculate_performance\<close> in this
  order; the runs below are written as that composition on given rows.
\<close>

text \<open>
  The body of the loop of \<open>_execute_trades\<close> for one row past the warm-up. The symbol
  handed to both orders is \<open>data.index.name\<close>, a parameter here; the quantity bought is
  the constant 100.
\<close>

definition process_bar :: "string \<Rightarrow> bar \<Rightarrow> backtester \<Rightarrow> backtester" where
  "process_bar symbol b s =
     (let current_date = bar_date b;
          current_price = close b;
          s1 = (if buy_signal b then execute_buy current_date symbol current_price 100 s else s);
          s2 = (if sell_signal b then execute_sell current_date symbol current_price s1 else s1)
      in update_equity_curve current_date current_price s2)"

text \<open>The loop \<open>for i in range(len(signals))\<close>, from index \<open>i\<close> on.\<close>

fun execute_trades_from :: "nat \<Rightarrow> string \<Rightarrow> bar list \<Rightarrow> backtester \<Rightarrow> backtester" where
  "execute_trades_from i symbol [] s = s"
| "execute_trades_from i symbol (b # bs) s =
     (if i < 50 then execute_trades_from (Suc i) symbol bs s
      else execute_trades_from (Suc i) symbol bs (process_bar symbol b s))"

definition execute_trades :: "string \<Rightarrow> bar list \<Rightarrow> backtester \<Rightarrow> backtester" where
  "execute_trades symbol bars s = execute_trades_from 0 symbol bars s"

subsection \<open>Performance evaluator\<close>

text \<open>
  The pandas operations used by \<open>_calculate_performance\<close>, on a column without missing
  entries. \<open>Series.pct_change\<close> is \<open>data / data.shift(1) - 1\<close>: NaN in the first row.
\<close>

fun pct_change :: "real list \<Rightarrow> fval list" where
  "pct_change [] = []"
| "pct_change (x # xs) =
     NaN # map (\<lambda>(prev, cur). fsub (fdiv (Fin cur) (Fin prev)) (Fin 1)) (zip (x # xs) xs)"

definition fsum :: "fval list \<Rightarrow> fval" where
  "fsum xs = foldl fadd (Fin 0) xs"

fun fsqrt :: "fval \<Rightarrow> fval" where
  "fsqrt (Fin a) = (if a < 0 then NaN else Fin (sqrt a))"
| "fsqrt PInf = PInf"
| "fsqrt NInf = NaN"
| "fsqrt NaN = NaN"

text \<open>
  \<open>Series.std\<close> (\<open>skipna=True\<close>, \<open>ddof=1\<close>), as \<open>nanops.nanvar\<close> computes it: NaN entries
  are left out, at most one remaining entry gives NaN, otherwise the two-pass sum of
  squared deviations from the mean over \<open>count - 1\<close>, and its square root.
\<close>

definition std :: "fval list \<Rightarrow> fval" where
  "std xs =
     (let values = filter (\<lambda>v. v \<noteq> NaN) xs;
          count = length values
      in if count \<le> 1 then NaN
         else
           let avg = fdiv (fsum values) (Fin (real count));
               sqr = map (\<lambda>v. fmul (fsub avg v) (fsub avg v)) values
           in fsqrt (fdiv (fsum sqr) (Fin (real count - 1))))"

text \<open>\<open>Series.cummax\<close>: the running maximum.\<close>

fun cummax_from :: "real \<Rightarrow> real list \<Rightarrow> real list" where
  "cummax_from m [] = []"
| "cummax_from m (x # xs) = max m x # cummax_from (max m x) xs"

fun cummax :: "real list \<Rightarrow> real list" where
  "cummax [] = []"
| "cummax (x # xs) = x # cummax_from x xs"

text \<open>\<open>Series.min\<close> (\<open>skipna=True\<close>): the least entry that is not NaN, NaN if there is none.\<close>

definition fmin :: "fval \<Rightarrow> fval \<Rightarrow> fval" where
  "fmin a b = (if fgt a b then b else a)"

definition series_min :: "fval list \<Rightarrow> fval" where
  "series_min xs =
     (case filter (\<lambda>v. v \<noteq> NaN) xs of
        [] \<Rightarrow> NaN
      | v # vs \<Rightarrow> foldl fmin v vs)"

text \<open>The columns and metrics of \<open>_calculate_performance\<close>, in the order of the source.\<close>

definition returns_of :: "real list \<Rightarrow> fval list" where
  "returns_of eq = pct_change eq"

definition total_return_of :: "real \<Rightarrow> real list \<Rightarrow> fval" where
  "total_return_of init eq = fdiv (Fin (last eq - init)) (Fin init)"

definition annualized_return_of :: "real \<Rightarrow> real list \<Rightarrow> fval" where
  "annualized_return_of init eq = fmul (total_return_of init eq) (Fin (252 / real (length eq)))"

definition volatility_of :: "real list \<Rightarrow> fval" where
  "volatility_of eq = fmul (std (returns_of eq)) (Fin (sqrt 252))"

definition sharpe_ratio_of :: "real \<Rightarrow> real list \<Rightarrow> fval" where
  "sharpe_ratio_of init eq =
     (if fgt (volatility_of eq) (Fin 0)
      then fdiv (annualized_return_of init eq) (volatility_of eq)
      else Fin 0)"

definition drawdown_of :: "real list \<Rightarrow> fval list" where
  "drawdown_of eq = map (\<lambda>(e, c). fdiv (Fin (e - c)) (Fin c)) (zip eq (cummax eq))"

definition max_drawdown_of :: "real list \<Rightarrow> fval" where
  "max_drawdown_of eq = series_min (drawdown_of eq)"

text \<open>
  Trade statistics. The frame \<open>trades_df\<close> has a column \<open>pnl\<close> as soon as one trade dict
  has that key; the rows of the other trades hold NaN there, and \<open>NaN > 0\<close> is false.
\<close>

definition has_pnl_column :: "trade list \<Rightarrow> bool" where
  "has_pnl_column ts = list_ex (\<lambda>t. trade_pnl t \<noteq> None) ts"

definition winning_trades :: "trade list \<Rightarrow> trade list" where
  "winning_trades ts =
     (if has_pnl_column ts
      then filter (\<lambda>t. case trade_pnl t of None \<Rightarrow> False | Some p \<Rightarrow> p > 0) ts
      else [])"

text \<open>The divisor of the win rate in the source: \<open>len(trades_df)\<close>.\<close>

definition win_rate_denominator :: "trade list \<Rightarrow> nat" where
  "win_rate_denominator ts = length ts"

definition win_rate_of :: "trade list \<Rightarrow> real" where
  "win_rate_of ts =
     (if ts \<noteq> [] then
        (if win_rate_denominator ts > 0
         then real (length (winning_trades ts)) / real (win_rate_denominator ts)
         else 0)
      else 0)"

text \<open>A row of \<open>equity_df.to_dict('records')\<close>; the date is the index and not part of it.\<close>

record equity_row =
  row_balance :: real
  row_portfolio_value :: real
  row_equity :: real
  row_returns :: fval
  row_cummax :: real
  row_drawdown :: fval

record performance =
  total_return :: fval
  annualized_return :: fval
  volatility :: fval
  sharpe_ratio :: fval
  max_drawdown :: fval
  win_rate :: real
  total_trades :: nat
  final_balance :: real
  report_equity_curve :: "equity_row list"
  report_trades :: "trade list"

datatype error = Error string

definition equity_rows :: "equity_point list \<Rightarrow> equity_row list" where
  "equity_rows pts =
     (let eq = map equity pts in
      map (\<lambda>(p, r, c, d).
             \<lparr>row_balance = balance p, row_portfolio_value = portfolio_value p,
              row_equity = equity p, row_returns = r, row_cummax = c, row_drawdown = d\<rparr>)
        (zip pts (zip (returns_of eq) (zip (cummax eq) (drawdown_of eq)))))"

definition calculate_performance :: "backtester \<Rightarrow> error + performance" where
  "calculate_performance s =
     (if equity_curve s = [] then Inl (Error ''No equity curve data'')
      else
        let eq = map equity (equity_curve s); init = initial_balance s in
        Inr \<lparr>total_return = total_return_of init eq,
             annualized_return = annualized_return_of init eq,
             volatility = volatility_of eq,
             sharpe_ratio = sharpe_ratio_of init eq,
             max_drawdown = max_drawdown_of eq,
             win_rate = win_rate_of (trades s),
             total_trades = length (trades s),
             final_balance = last eq,
             report_equity_curve = equity_rows (equity_curve s),
             report_trades = trades s\<rparr>)"

subsection \<open>Scenario inputs and invariants used below\<close>

text \<open>
  Sixty rows with close 100 throughout, a buy signal in row \<open>k\<close> only (rows are
  numbered from 0, so the 51st bar is row 50) and no sell signal.
\<close>

definition flat_bars :: "nat \<Rightarrow> bar list" where
  "flat_bars k =
     map (\<lambda>i. \<lparr>bar_date = i, close = 100, buy_signal = (i = k), sell_signal = False\<rparr>) [0..<60]"

text \<open>Rows \<open>0..<n\<close> at the given close with neither signal set.\<close>

definition idle_bars :: "nat \<Rightarrow> real \<Rightarrow> bar list" where
  "idle_bars n p =
     map (\<lambda>i. \<lparr>bar_date = i, close = p, buy_signal = False, sell_signal = False\<rparr>) [0..<n]"

text \<open>
  Fifty warm-up rows at close 100 without signals, followed by the listed rows
  (close, buy signal, sell signal), dated 50, 51, ...
\<close>

definition tail_bars :: "(real \<times> bool \<times> bool) list \<Rightarrow> bar list" where
  "tail_bars rows =
     map (\<lambda>(i, p, b, s). \<lparr>bar_date = 50 + i, close = p, buy_signal = b, sell_signal = s\<rparr>)
       (enumerate 0 rows)"

definition scenario_bars :: "(real \<times> bool \<times> bool) list \<Rightarrow> bar list" where
  "scenario_bars rows = idle_bars 50 100 @ tail_bars rows"

text \<open>
  The divisor of the win rate in the words of the specification for a run without sells:
  trades without a realized P&L field are not counted.
\<close>

definition spec_win_rate_denominator :: "trade list \<Rightarrow> nat" where
  "spec_win_rate_denominator ts = length (filter (\<lambda>t. trade_pnl t \<noteq> None) ts)"

text \<open>Cash is not negative and no position holds a negative quantity.\<close>

definition cash_invariant :: "backtester \<Rightarrow> bool" where
  "cash_invariant s \<longleftrightarrow>
     0 \<le> current_balance s \<and> list_all (\<lambda>(symbol, pos). 0 \<le> quantity pos) (positions s)"

section \<open>Properties of the trade executor\<close>

subsection \<open>Auxiliary facts\<close>

lemma execute_trades_from_fold:
  "execute_trades_from i symbol bars s = fold (process_bar symbol) (drop (50 - i) bars) s"
proof (induction bars arbitrary: i s)
  case Nil
  show ?case by simp
next
  case (Cons b bs)
  show ?case
  proof (cases "i < 50")
    case True
    then have "50 - i = Suc (50 - Suc i)" by arith
    with True Cons.IH [of "Suc i" s] show ?thesis by simp
  next
    case False
    then have "50 - i = 0" "50 - Suc i = 0" by arith+
    with False Cons.IH [of "Suc i" "process_bar symbol b s"] show ?thesis by simp
  qed
qed

lemma execute_trades_fold:
  "execute_trades symbol bars s = fold (process_bar symbol) (drop 50 bars) s"
  by (simp add: execute_trades_def execute_trades_from_fold)

lemma dates_update_equity_curve:
  "map date (equity_curve (update_equity_curve d p s)) = map date (equity_curve s) @ [d]"
  by (simp add: update_equity_curve_def Let_def)

lemma equity_curve_execute_buy [simp]:
  "equity_curve (execute_buy d symbol p q s) = equity_curve s"
  by (simp add: execute_buy_def Let_def split: option.splits)

lemma equity_curve_execute_sell [simp]:
  "equity_curve (execute_sell d symbol p s) = equity_curve s"
  by (simp add: execute_sell_def Let_def split: option.splits)

lemma update_equity_curve_frame [simp]:
  "trades (update_equity_curve d p s) = trades s"
  "positions (update_equity_curve d p s) = positions s"
  "current_balance (update_equity_curve d p s) = current_balance s"
  "initial_balance (update_equity_curve d p s) = initial_balance s"
  by (simp_all add: update_equity_curve_def Let_def)

lemma dates_process_bar:
  "map date (equity_curve (process_bar symbol b s)) = map date (equity_curve s) @ [bar_date b]"
  by (simp add: process_bar_def Let_def dates_update_equity_curve)

lemma dates_fold_process_bar:
  "map date (equity_curve (fold (process_bar symbol) bs s)) =
     map date (equity_curve s) @ map bar_date bs"
  by (induction bs arbitrary: s) (simp_all add: dates_process_bar)

lemma process_bar_appends:
  "\<exists>e. equity_curve (process_bar symbol b s) = equity_curve s @ [e] \<and>
       balance e = current_balance (process_bar symbol b s)"
  by (simp add: process_bar_def Let_def update_equity_curve_def)

lemma list_all_update:
  "list_all P al \<Longrightarrow> P (k, v) \<Longrightarrow> list_all P (AList.update k v al)"
  by (induction al) auto

lemma list_all_delete:
  "list_all P al \<Longrightarrow> list_all P (AList.delete k al)"
  by (simp add: AList.delete_eq list_all_iff)

lemma cash_invariant_execute_buy:
  assumes "cash_invariant s" and "0 \<le> qty"
  shows "cash_invariant (execute_buy d symbol price qty s)"
proof (cases "price * of_int qty > current_balance s")
  case True
  with assms show ?thesis by (simp add: execute_buy_def)
next
  case False
  show ?thesis
  proof (cases "map_of (positions s) symbol")
    case None
    with False assms show ?thesis
      by (simp add: execute_buy_def cash_invariant_def Let_def list_all_update)
  next
    case (Some pos)
    then have "(symbol, pos) \<in> set (positions s)" by (rule map_of_SomeD)
    with assms have "0 \<le> quantity pos" by (auto simp: cash_invariant_def list_all_iff)
    with Some False assms show ?thesis
      by (simp add: execute_buy_def cash_invariant_def Let_def list_all_update)
  qed
qed

lemma cash_invariant_execute_sell:
  assumes "cash_invariant s" and "0 \<le> price"
  shows "cash_invariant (execute_sell d symbol price s)"
proof (cases "map_of (positions s) symbol")
  case None
  with assms show ?thesis by (simp add: execute_sell_def)
next
  case (Some pos)
  then have "(symbol, pos) \<in> set (positions s)" by (rule map_of_SomeD)
  with assms have "0 \<le> quantity pos" by (auto simp: cash_invariant_def list_all_iff)
  with assms have "0 \<le> price * of_int (quantity pos)" by simp
  with Some assms show ?thesis
    by (simp add: execute_sell_def cash_invariant_def Let_def list_all_delete)
qed

lemma cash_invariant_update_equity_curve:
  "cash_invariant (update_equity_curve d p s) = cash_invariant s"
  by (simp add: cash_invariant_def)

lemma cash_invariant_process_bar:
  assumes "cash_invariant s" and "0 \<le> close b"
  shows "cash_invariant (process_bar symbol b s)"
  using assms
  by (simp add: process_bar_def Let_def cash_invariant_update_equity_curve
      cash_invariant_execute_buy cash_invariant_execute_sell)

lemma cash_invariant_fold:
  assumes "cash_invariant s" and "list_all (\<lambda>b. 0 \<le> close b) bs"
    and "list_all (\<lambda>e. 0 \<le> balance e) (equity_curve s)"
  shows "cash_invariant (fold (process_bar symbol) bs s) \<and>
         list_all (\<lambda>e. 0 \<le> balance e) (equity_curve (fold (process_bar symbol) bs s))"
  using assms
proof (induction bs arbitrary: s)
  case Nil
  then show ?case by simp
next
  case (Cons b bs)
  from Cons.prems have inv: "cash_invariant (process_bar symbol b s)"
    by (simp add: cash_invariant_process_bar)
  obtain e where e: "equity_curve (process_bar symbol b s) = equity_curve s @ [e]"
    "balance e = current_balance (process_bar symbol b s)"
    using process_bar_appends by blast
  from inv e have "0 \<le> balance e" by (simp add: cash_invariant_def)
  with e Cons.prems have "list_all (\<lambda>e. 0 \<le> balance e) (equity_curve (process_bar symbol b s))"
    by simp
  with inv Cons.prems Cons.IH [of "process_bar symbol b s"] show ?case by simp
qed

lemma cash_invariant_initial:
  "0 \<le> bal \<Longrightarrow> cash_invariant (initialize_backtest (Backtester bal))"
  by (simp add: cash_invariant_def initialize_backtest_def Backtester_def)

lemma execute_trades_scenario:
  "execute_trades symbol (scenario_bars rows) s = fold (process_bar symbol) (tail_bars rows) s"
  by (simp add: execute_trades_fold scenario_bars_def idle_bars_def)

lemmas run_simps = execute_trades_scenario tail_bars_def process_bar_def execute_buy_def
  execute_sell_def update_equity_curve_def initialize_backtest_def Backtester_def

lemma rising_run:
  "execute_trades ''Date'' (scenario_bars [(100, True, False), (110, False, False), (110, False, True)])
     (initialize_backtest (Backtester 10000)) =
   \<lparr>initial_balance = 10000, current_balance = 11000, positions = [],
    trades = [BUY 50 ''Date'' 100 100 10000, SELL 52 ''Date'' 100 110 11000 1000],
    equity_curve =
      [\<lparr>date = 50, balance = 0, portfolio_value = 10000, equity = 10000\<rparr>,
       \<lparr>date = 51, balance = 0, portfolio_value = 11000, equity = 11000\<rparr>,
       \<lparr>date = 52, balance = 11000, portfolio_value = 11000, equity = 11000\<rparr>]\<rparr>"
  by (simp add: run_simps)

lemma dipping_run:
  "execute_trades ''Date'' (scenario_bars [(100, True, False), (90, False, False), (110, False, True)])
     (initialize_backtest (Backtester 10000)) =
   \<lparr>initial_balance = 10000, current_balance = 11000, positions = [],
    trades = [BUY 50 ''Date'' 100 100 10000, SELL 52 ''Date'' 100 110 11000 1000],
    equity_curve =
      [\<lparr>date = 50, balance = 0, portfolio_value = 10000, equity = 10000\<rparr>,
       \<lparr>date = 51, balance = 0, portfolio_value = 9000, equity = 9000\<rparr>,
       \<lparr>date = 52, balance = 11000, portfolio_value = 11000, equity = 11000\<rparr>]\<rparr>"
  by (simp add: run_simps)

lemma steady_run:
  "execute_trades ''Date'' (scenario_bars [(100, True, False), (110, False, False), (121, False, False)])
     (initialize_backtest (Backtester 10000)) =
   \<lparr>initial_balance = 10000, current_balance = 0,
    positions = [(''Date'', \<lparr>quantity = 100, cost = 10000, avg_price = Fin 100\<rparr>)],
    trades = [BUY 50 ''Date'' 100 100 10000],
    equity_curve =
      [\<lparr>date = 50, balance = 0, portfolio_value = 10000, equity = 10000\<rparr>,
       \<lparr>date = 51, balance = 0, portfolio_value = 11000, equity = 11000\<rparr>,
       \<lparr>date = 52, balance = 0, portfolio_value = 12100, equity = 12100\<rparr>]\<rparr>"
  by (simp add: run_simps)

section \<open>Properties of the performance evaluator\<close>

subsection \<open>Auxiliary facts on the order of values and on the drawdown column\<close>

lemma fle_trans: "fle a b \<Longrightarrow> fle b c \<Longrightarrow> fle a c"
  by (cases a; cases b; cases c) auto

lemma fle_refl: "a \<noteq> NaN \<Longrightarrow> fle a a"
  by (cases a) auto

lemma fle_fmin1: "a \<noteq> NaN \<Longrightarrow> b \<noteq> NaN \<Longrightarrow> fle (fmin a b) a"
  by (cases a; cases b) (auto simp: fmin_def)

lemma fle_fmin2: "a \<noteq> NaN \<Longrightarrow> b \<noteq> NaN \<Longrightarrow> fle (fmin a b) b"
  by (cases a; cases b) (auto simp: fmin_def)

lemma fmin_not_NaN: "a \<noteq> NaN \<Longrightarrow> b \<noteq> NaN \<Longrightarrow> fmin a b \<noteq> NaN"
  by (simp add: fmin_def)

lemma foldl_fmin_le:
  "a \<noteq> NaN \<Longrightarrow> NaN \<notin> set vs \<Longrightarrow>
     foldl fmin a vs \<noteq> NaN \<and> fle (foldl fmin a vs) a \<and> (\<forall>v\<in>set vs. fle (foldl fmin a vs) v)"
proof (induction vs arbitrary: a)
  case Nil
  then show ?case by (simp add: fle_refl)
next
  case (Cons b vs)
  then have b: "b \<noteq> NaN" and vs: "NaN \<notin> set vs" by auto
  from Cons.prems b have m: "fmin a b \<noteq> NaN" by (simp add: fmin_not_NaN)
  from Cons.IH [OF m vs]
  have ih: "foldl fmin (fmin a b) vs \<noteq> NaN" "fle (foldl fmin (fmin a b) vs) (fmin a b)"
    "\<forall>v\<in>set vs. fle (foldl fmin (fmin a b) vs) v" by auto
  from ih(2) fle_fmin1 [OF Cons.prems(1) b] have "fle (foldl fmin (fmin a b) vs) a"
    by (rule fle_trans)
  moreover from ih(2) fle_fmin2 [OF Cons.prems(1) b] have "fle (foldl fmin (fmin a b) vs) b"
    by (rule fle_trans)
  ultimately show ?case using ih by simp
qed

lemma series_min_unfold:
  "series_min xs = (case filter (\<lambda>v. v \<noteq> NaN) xs of [] \<Rightarrow> NaN | a # vs \<Rightarrow> foldl fmin a vs)"
  by (simp add: series_min_def)

lemma series_min_le:
  assumes "v \<in> set xs" and "v \<noteq> NaN"
  shows "fle (series_min xs) v"
proof -
  define ys where "ys = filter (\<lambda>v. v \<noteq> NaN) xs"
  have sm: "series_min xs = (case ys of [] \<Rightarrow> NaN | a # vs \<Rightarrow> foldl fmin a vs)"
    unfolding ys_def by (rule series_min_unfold)
  have mem: "v \<in> set ys" unfolding ys_def using assms by simp
  have nn: "NaN \<notin> set ys" unfolding ys_def by simp
  show ?thesis
  proof (cases ys)
    case Nil
    with mem show ?thesis by simp
  next
    case (Cons a vs)
    with nn have a: "a \<noteq> NaN" and vs: "NaN \<notin> set vs" by auto
    from mem Cons have "v = a \<or> v \<in> set vs" by simp
    with foldl_fmin_le [OF a vs] have "fle (foldl fmin a vs) v" by blast
    with sm Cons show ?thesis by simp
  qed
qed

lemma foldl_fmin_const:
  "\<forall>v\<in>set vs. v = a \<Longrightarrow> foldl fmin a vs = a"
  by (induction vs) (simp_all add: fmin_def)

lemma series_min_const:
  assumes "\<forall>v\<in>set xs. v = NaN \<or> v = c" and "c \<in> set xs" and "c \<noteq> NaN"
  shows "series_min xs = c"
proof -
  define ys where "ys = filter (\<lambda>v. v \<noteq> NaN) xs"
  have sm: "series_min xs = (case ys of [] \<Rightarrow> NaN | a # vs \<Rightarrow> foldl fmin a vs)"
    unfolding ys_def by (rule series_min_unfold)
  have mem: "c \<in> set ys" unfolding ys_def using assms by simp
  have allc: "\<forall>w\<in>set ys. w = c" unfolding ys_def using assms(1) by auto
  show ?thesis
  proof (cases ys)
    case Nil
    with mem show ?thesis by simp
  next
    case (Cons a vs)
    with allc have "a = c" "\<forall>v\<in>set vs. v = c" by auto
    with foldl_fmin_const [of vs c] sm Cons show ?thesis by simp
  qed
qed

lemma cummax_from_sorted:
  "sorted (m # xs) \<Longrightarrow> cummax_from m xs = xs"
  by (induction xs arbitrary: m) (auto simp: max_def)

lemma cummax_sorted: "sorted xs \<Longrightarrow> cummax xs = xs"
  by (cases xs) (simp_all add: cummax_from_sorted del: sorted_wrt.simps)

lemma drawdown_of_sorted:
  "sorted es \<Longrightarrow> drawdown_of es = map (\<lambda>e. if e = 0 then NaN else Fin 0) es"
  by (simp add: drawdown_of_def cummax_sorted zip_same_conv_map inf_of_sign_def)

lemma max_drawdown_sorted:
  assumes "sorted es" and "\<exists>e\<in>set es. e \<noteq> 0"
  shows "max_drawdown_of es = Fin 0"
proof -
  from assms(2) have "Fin 0 \<in> set (map (\<lambda>e. if e = 0 then NaN else Fin 0) es)" by force
  moreover have "\<forall>v\<in>set (map (\<lambda>e. if e = 0 then NaN else Fin 0) es). v = NaN \<or> v = Fin 0"
    by auto
  ultimately show ?thesis
    using series_min_const [of "map (\<lambda>e. if e = 0 then NaN else Fin 0) es" "Fin 0"] assms(1)
    by (simp add: max_drawdown_of_def drawdown_of_sorted)
qed



lemma drawdown_from_zero:
  "\<exists>e\<in>set xs. e \<noteq> 0 \<Longrightarrow>
     \<exists>v\<in>set (map (\<lambda>(e, c). fdiv (Fin (e - c)) (Fin c)) (zip xs (cummax_from 0 xs))).
        v = Fin 0 \<or> v = NInf"
proof (induction xs)
  case Nil
  then show ?case by simp
next
  case (Cons x xs)
  consider "0 < x" | "x < 0" | "x = 0" by arith
  then show ?case
  proof cases
    case 1
    then show ?thesis by (simp add: max_def)
  next
    case 2
    then show ?thesis by (simp add: max_def inf_of_sign_def)
  next
    case 3
    with Cons show ?thesis by simp
  qed
qed

lemma drawdown_has_nonpositive:
  assumes "\<exists>e\<in>set es. e \<noteq> 0"
  shows "\<exists>v\<in>set (drawdown_of es). v \<noteq> NaN \<and> fle v (Fin 0)"
proof (cases es)
  case Nil
  with assms show ?thesis by simp
next
  case (Cons x xs)
  show ?thesis
  proof (cases "x = 0")
    case False
    with Cons show ?thesis by (simp add: drawdown_of_def)
  next
    case True
    with Cons assms have "\<exists>e\<in>set xs. e \<noteq> 0" by simp
    from drawdown_from_zero [OF this]
    obtain v where v: "v \<in> set (map (\<lambda>(e, c). fdiv (Fin (e - c)) (Fin c)) (zip xs (cummax_from 0 xs)))"
      and v': "v = Fin 0 \<or> v = NInf" by blast
    have "drawdown_of es =
        fdiv (Fin (0 - 0)) (Fin 0) # map (\<lambda>(e, c). fdiv (Fin (e - c)) (Fin c)) (zip xs (cummax_from 0 xs))"
      by (simp only: drawdown_of_def Cons True cummax.simps zip_Cons_Cons list.map prod.case)
    with v have "v \<in> set (drawdown_of es)" by (simp only: list.set insert_iff) blast
    moreover from v' have "v \<noteq> NaN \<and> fle v (Fin 0)" by auto
    ultimately show ?thesis by blast
  qed
qed

lemma max_drawdown_nonpositive:
  assumes "\<exists>e\<in>set es. e \<noteq> 0"
  shows "fle (max_drawdown_of es) (Fin 0)"
proof -
  from drawdown_has_nonpositive [OF assms]
  obtain v where v: "v \<in> set (drawdown_of es)" "v \<noteq> NaN" "fle v (Fin 0)" by blast
  from series_min_le [OF v(1,2)] v(3) show ?thesis
    unfolding max_drawdown_of_def by (rule fle_trans)
qed

lemma max_drawdown_zeros:
  assumes "\<forall>e\<in>set es. e = (0::real)"
  shows "max_drawdown_of es = NaN"
proof -
  from assms have "sorted es" by (induction es) auto
  then have "drawdown_of es = map (\<lambda>e. if e = 0 then NaN else Fin 0) es"
    by (rule drawdown_of_sorted)
  with assms have "filter (\<lambda>v. v \<noteq> NaN) (drawdown_of es) = []"
    by (simp add: filter_empty_conv)
  then show ?thesis by (simp add: max_drawdown_of_def series_min_def)
qed

lemma volatility_rising: "fgt (volatility_of [10000, 11000, 11000]) (Fin 0)"
  by (simp add: volatility_of_def returns_of_def std_def fsum_def fsub_def)

lemma volatility_steady: "volatility_of [10000, 11000, 12100] = Fin 0"
  by (simp add: volatility_of_def returns_of_def std_def fsum_def fsub_def)

lemma max_drawdown_dipping: "max_drawdown_of [10000, 9000, 11000] = Fin (- (1 / 10))"
  by (simp add: max_drawdown_of_def drawdown_of_def series_min_def fmin_def)

section \<open>The claims\<close>

subsection \<open>C1: the flat-series scenario\<close>

text \<open>
  Claim C1. Sixty bars, every close 100, starting cash 100000, fixed quantity 100, a buy
  signal in one bar \<open>k\<close> past the warm-up and no other signal (the 51st bar is row 50;
  the statement holds for every row from 50 to 59). The run ends with one position of
  quantity 100 at average price 100, cash 90000, a single BUY trade, and ten equity
  points, dated 50 to 59, each with equity 100000.
\<close>

theorem flat_series_buy_scenario:
  "50 \<le> k \<Longrightarrow> k < 60 \<Longrightarrow>
     (let r = execute_trades symbol (flat_bars k) (initialize_backtest (Backtester 100000)) in
        positions r = [(symbol, \<lparr>quantity = 100, cost = 10000, avg_price = Fin 100\<rparr>)] \<and>
        current_balance r = 90000 \<and>
        trades r = [BUY k symbol 100 100 10000] \<and>
        map date (equity_curve r) = [50..<60] \<and>
        map equity (equity_curve r) = replicate 10 100000)"
proof -
  assume "50 \<le> k" "k < 60"
  then have "k = 50 \<or> k = 51 \<or> k = 52 \<or> k = 53 \<or> k = 54 \<or> k = 55 \<or> k = 56 \<or> k = 57 \<or>
      k = 58 \<or> k = 59"
    by arith
  then show ?thesis
    by (elim disjE)
      (simp_all add: flat_bars_def execute_trades_def upt_rec [of _ "numeral _"]
        upt_rec [of _ "Suc _"] process_bar_def execute_buy_def execute_sell_def
        update_equity_curve_def initialize_backtest_def Backtester_def eval_nat_numeral)
qed

text \<open>The scenario of the claim itself: the buy signal in the 51st bar, row 50.\<close>

theorem flat_series_buy_scenario_witness:
  "(let r = execute_trades ''Date'' (flat_bars 50) (initialize_backtest (Backtester 100000)) in
      positions r = [(''Date'', \<lparr>quantity = 100, cost = 10000, avg_price = Fin 100\<rparr>)] \<and>
      current_balance r = 90000 \<and>
      trades r = [BUY 50 ''Date'' 100 100 10000] \<and>
      map date (equity_curve r) = [50..<60] \<and>
      map equity (equity_curve r) = replicate 10 100000)"
  using flat_series_buy_scenario [of 50 "''Date''"] by simp

subsection \<open>C2: the sell rule\<close>

text \<open>
  Claim C2. A sell with a position for the symbol sells the whole quantity of the position
  at the given price: cash grows by price times quantity, the trade appended is a SELL of
  that quantity with revenue price times quantity and realized P&L revenue minus the cost
  basis of the position, the position is absent afterwards, other positions and the equity
  curve are untouched. A sell without a position changes nothing. In a bar whose sell
  signal is set, exactly this sell runs at the close of the bar, after the buy check.
\<close>

theorem sell_rule:
  "(\<forall>pos. map_of (positions s) symbol = Some pos \<longrightarrow>
      current_balance (execute_sell d symbol price s) =
        current_balance s + price * of_int (quantity pos) \<and>
      trades (execute_sell d symbol price s) =
        trades s @ [SELL d symbol (quantity pos) price (price * of_int (quantity pos))
                      (price * of_int (quantity pos) - cost pos)] \<and>
      map_of (positions (execute_sell d symbol price s)) symbol = None \<and>
      (\<forall>k. k \<noteq> symbol \<longrightarrow>
         map_of (positions (execute_sell d symbol price s)) k = map_of (positions s) k) \<and>
      equity_curve (execute_sell d symbol price s) = equity_curve s) \<and>
   (map_of (positions s) symbol = None \<longrightarrow> execute_sell d symbol price s = s) \<and>
   (sell_signal b \<longrightarrow>
      process_bar symbol b s =
        update_equity_curve (bar_date b) (close b)
          (execute_sell (bar_date b) symbol (close b)
             (if buy_signal b then execute_buy (bar_date b) symbol (close b) 100 s else s)))"
  by (simp add: execute_sell_def process_bar_def Let_def delete_conv)

text \<open>
  A position of 100 bought at 100 and sold at 110: cash goes from 0 to 11000, the P&L is
  1000 and the position is gone; the same sell on a fresh state changes nothing.
\<close>

theorem sell_rule_witness:
  "map_of (positions (execute_buy 50 ''Date'' 100 100 (Backtester 10000))) ''Date'' =
     Some \<lparr>quantity = 100, cost = 10000, avg_price = Fin 100\<rparr> \<and>
   current_balance (execute_buy 50 ''Date'' 100 100 (Backtester 10000)) = 0 \<and>
   current_balance (execute_sell 52 ''Date'' 110 (execute_buy 50 ''Date'' 100 100 (Backtester 10000))) =
     11000 \<and>
   trades (execute_sell 52 ''Date'' 110 (execute_buy 50 ''Date'' 100 100 (Backtester 10000))) =
     [BUY 50 ''Date'' 100 100 10000, SELL 52 ''Date'' 100 110 11000 1000] \<and>
   map_of (positions (execute_sell 52 ''Date'' 110
     (execute_buy 50 ''Date'' 100 100 (Backtester 10000)))) ''Date'' = None \<and>
   map_of (positions (Backtester 10000)) ''Date'' = None \<and>
   execute_sell 52 ''Date'' 110 (Backtester 10000) = Backtester 10000"
  using sell_rule [where s = "execute_buy 50 ''Date'' 100 100 (Backtester 10000)"
      and symbol = "''Date''" and d = 52 and price = 110]
    sell_rule [where s = "Backtester 10000" and symbol = "''Date''" and d = 52 and price = 110]
  by (simp add: execute_buy_def execute_sell_def Backtester_def)

subsection \<open>C3: insufficient funds\<close>

text \<open>
  Claim C3. A buy whose cost, price times quantity, exceeds the cash balance returns the
  state as it was: cash, positions, trades and equity curve are unchanged and nothing is
  raised. A bar with such a buy still appends its equity point; without a sell signal in
  that bar, cash, positions and trades after the bar are those before it.
\<close>

theorem insufficient_funds_frame:
  "(current_balance s < price * of_int qty \<longrightarrow> execute_buy d symbol price qty s = s) \<and>
   (buy_signal b \<and> current_balance s < close b * 100 \<longrightarrow>
      process_bar symbol b s =
        update_equity_curve (bar_date b) (close b)
          (if sell_signal b then execute_sell (bar_date b) symbol (close b) s else s) \<and>
      length (equity_curve (process_bar symbol b s)) = Suc (length (equity_curve s)) \<and>
      map date (equity_curve (process_bar symbol b s)) =
        map date (equity_curve s) @ [bar_date b] \<and>
      (\<not> sell_signal b \<longrightarrow>
         current_balance (process_bar symbol b s) = current_balance s \<and>
         positions (process_bar symbol b s) = positions s \<and>
         trades (process_bar symbol b s) = trades s))"
  by (simp add: execute_buy_def process_bar_def Let_def dates_update_equity_curve)
    (simp add: update_equity_curve_def Let_def)

text \<open>Cash 5000 and a buy of 100 units at 100: nothing is bought, the point is recorded.\<close>

theorem insufficient_funds_frame_witness:
  "current_balance (Backtester 5000) < 100 * of_int 100 \<and>
   execute_buy 50 ''Date'' 100 100 (Backtester 5000) = Backtester 5000 \<and>
   process_bar ''Date'' \<lparr>bar_date = 50, close = 100, buy_signal = True, sell_signal = False\<rparr>
     (Backtester 5000) =
     \<lparr>initial_balance = 5000, current_balance = 5000, positions = [], trades = [],
      equity_curve = [\<lparr>date = 50, balance = 5000, portfolio_value = 5000, equity = 5000\<rparr>]\<rparr>"
  using insufficient_funds_frame [where s = "Backtester 5000" and price = 100 and qty = 100
      and d = 50 and symbol = "''Date''"
      and b = "\<lparr>bar_date = 50, close = 100, buy_signal = True, sell_signal = False\<rparr>"]
  by (simp add: Backtester_def update_equity_curve_def)

subsection \<open>C8: warm-up skip and equity cadence\<close>

text \<open>
  Claim C8. The executor skips the first 50 rows whatever they hold: a sequence of at most
  50 rows leaves the state as it was (no trade, no equity point), and a longer sequence is
  processed as its rows from index 50 on, in order. Every one of those rows appends exactly
  one equity point with its date, so the dates of the curve are the dates of rows 50, 51,
  ... in order, and from a freshly initialised state the curve has \<open>max(0, n - 50)\<close>
  points for \<open>n\<close> rows.
\<close>

theorem warmup_skip_equity_cadence:
  "execute_trades symbol (take 50 bars) s = s \<and>
   execute_trades symbol bars s = fold (process_bar symbol) (drop 50 bars) s \<and>
   equity_curve (process_bar symbol b s) =
     equity_curve s @ [last (equity_curve (process_bar symbol b s))] \<and>
   map date (equity_curve (execute_trades symbol bars s)) =
     map date (equity_curve s) @ map bar_date (drop 50 bars) \<and>
   int (length (equity_curve (execute_trades symbol bars (initialize_backtest s)))) =
     max 0 (int (length bars) - 50)"
proof -
  have a: "execute_trades symbol (take 50 bars) s = s"
    by (simp add: execute_trades_fold)
  have b: "map date (equity_curve (execute_trades symbol bars s)) =
      map date (equity_curve s) @ map bar_date (drop 50 bars)"
    by (simp add: execute_trades_fold dates_fold_process_bar)
  have "length (map date (equity_curve (execute_trades symbol bars (initialize_backtest s)))) =
      length (map bar_date (drop 50 bars))"
    by (simp only: execute_trades_fold dates_fold_process_bar) (simp add: initialize_backtest_def)
  then have c: "int (length (equity_curve (execute_trades symbol bars (initialize_backtest s)))) =
      max 0 (int (length bars) - 50)"
    by simp
  have d: "equity_curve (process_bar symbol b s) =
      equity_curve s @ [last (equity_curve (process_bar symbol b s))]"
    using process_bar_appends [of symbol b s] by auto
  from a b c d execute_trades_fold show ?thesis by blast
qed

text \<open>Fifty-two rows give the two equity points dated 50 and 51; fifty rows give none.\<close>

theorem warmup_skip_equity_cadence_witness:
  "map date (equity_curve (execute_trades ''Date''
      (scenario_bars [(100, False, False), (100, False, False)])
      (initialize_backtest (Backtester 100000)))) = [50, 51] \<and>
   execute_trades ''Date'' (scenario_bars []) (initialize_backtest (Backtester 100000)) =
     initialize_backtest (Backtester 100000)"
proof -
  let ?B = "scenario_bars [(100, False, False), (100, False, False)]"
  let ?S = "initialize_backtest (Backtester 100000)"
  have "map date (equity_curve (execute_trades ''Date'' ?B ?S)) =
      map date (equity_curve ?S) @ map bar_date (drop 50 ?B)"
    using warmup_skip_equity_cadence [where symbol = "''Date''" and bars = ?B and s = ?S
        and b = "\<lparr>bar_date = 50, close = 100, buy_signal = False, sell_signal = False\<rparr>"]
    by blast
  moreover have "map date (equity_curve ?S) @ map bar_date (drop 50 ?B) = [50, 51]"
    by (simp add: scenario_bars_def idle_bars_def tail_bars_def initialize_backtest_def)
  moreover have "execute_trades ''Date'' (scenario_bars []) ?S = ?S"
    by (simp add: run_simps)
  ultimately show ?thesis by simp
qed

subsection \<open>C9: buy and sell signal in the same bar\<close>

text \<open>
  Claim C9. A bar with both signals set is processed as the buy on the state before the
  bar, then the sell on the state the buy returned, then the equity update. After such a
  bar there is no position for the symbol: what the buy created or enlarged is sold in
  the same bar.
\<close>

theorem simultaneous_signal_ordering:
  "buy_signal b \<Longrightarrow> sell_signal b \<Longrightarrow>
     process_bar symbol b s =
       update_equity_curve (bar_date b) (close b)
         (execute_sell (bar_date b) symbol (close b)
            (execute_buy (bar_date b) symbol (close b) 100 s)) \<and>
     map_of (positions (process_bar symbol b s)) symbol = None"
  by (simp add: process_bar_def Let_def execute_sell_def delete_conv split: option.splits)

text \<open>Both signals at close 100 on a fresh state with cash 100000: a BUY, then a SELL.\<close>

theorem simultaneous_signal_ordering_witness:
  "process_bar ''Date'' \<lparr>bar_date = 50, close = 100, buy_signal = True, sell_signal = True\<rparr>
     (Backtester 100000) =
     \<lparr>initial_balance = 100000, current_balance = 100000, positions = [],
      trades = [BUY 50 ''Date'' 100 100 10000, SELL 50 ''Date'' 100 100 10000 0],
      equity_curve =
        [\<lparr>date = 50, balance = 100000, portfolio_value = 100000, equity = 100000\<rparr>]\<rparr> \<and>
   map_of (positions (process_bar ''Date''
     \<lparr>bar_date = 50, close = 100, buy_signal = True, sell_signal = True\<rparr>
     (Backtester 100000))) ''Date'' = None"
  using simultaneous_signal_ordering [where symbol = "''Date''" and s = "Backtester 100000"
      and b = "\<lparr>bar_date = 50, close = 100, buy_signal = True, sell_signal = True\<rparr>"]
  by (simp add: execute_buy_def execute_sell_def update_equity_curve_def Backtester_def)

subsection \<open>C10: cash never goes negative\<close>

text \<open>
  Claim C10, as the code has it. The source does not check the sign of a price, so the
  invariant needs closes that are not negative. With such a price, cash that is not
  negative stays so under a buy of 100 units and under a sell, and positions keep
  quantities that are not negative. A buy whose cost equals the balance is accepted and
  leaves cash 0; a buy whose cost exceeds the balance is not applied. Hence in a run
  started with a balance that is not negative, over rows whose closes are not negative,
  cash is not negative after any number \<open>n\<close> of rows, and every equity point records
  a balance that is not negative.
\<close>

theorem cash_never_negative:
  "(cash_invariant s \<and> 0 \<le> price \<longrightarrow>
      0 \<le> current_balance (execute_buy d symbol price 100 s) \<and>
      cash_invariant (execute_buy d symbol price 100 s) \<and>
      0 \<le> current_balance (execute_sell d symbol price s) \<and>
      cash_invariant (execute_sell d symbol price s)) \<and>
   (price * of_int qty = current_balance s \<longrightarrow>
      current_balance (execute_buy d symbol price qty s) = 0 \<and>
      trades (execute_buy d symbol price qty s) =
        trades s @ [BUY d symbol qty price (price * of_int qty)]) \<and>
   (price * of_int qty > current_balance s \<longrightarrow> execute_buy d symbol price qty s = s) \<and>
   (0 \<le> bal \<and> list_all (\<lambda>b. 0 \<le> close b) bars \<longrightarrow>
      cash_invariant (execute_trades symbol (take n bars) (initialize_backtest (Backtester bal))) \<and>
      0 \<le> current_balance (execute_trades symbol (take n bars) (initialize_backtest (Backtester bal))) \<and>
      list_all (\<lambda>e. 0 \<le> balance e)
        (equity_curve (execute_trades symbol bars (initialize_backtest (Backtester bal)))))"
proof -
  have ops: "cash_invariant s \<and> 0 \<le> price \<longrightarrow>
      0 \<le> current_balance (execute_buy d symbol price 100 s) \<and>
      cash_invariant (execute_buy d symbol price 100 s) \<and>
      0 \<le> current_balance (execute_sell d symbol price s) \<and>
      cash_invariant (execute_sell d symbol price s)"
    using cash_invariant_execute_buy [of s 100 d symbol price]
      cash_invariant_execute_sell [of s price d symbol]
    by (simp add: cash_invariant_def)
  have exact: "price * of_int qty = current_balance s \<longrightarrow>
      current_balance (execute_buy d symbol price qty s) = 0 \<and>
      trades (execute_buy d symbol price qty s) =
        trades s @ [BUY d symbol qty price (price * of_int qty)]"
    by (simp add: execute_buy_def Let_def split: option.splits)
  have skip: "price * of_int qty > current_balance s \<longrightarrow> execute_buy d symbol price qty s = s"
    by (simp add: execute_buy_def)
  have run: "0 \<le> bal \<and> list_all (\<lambda>b. 0 \<le> close b) bars \<longrightarrow>
      cash_invariant (execute_trades symbol (take n bars) (initialize_backtest (Backtester bal))) \<and>
      0 \<le> current_balance (execute_trades symbol (take n bars) (initialize_backtest (Backtester bal))) \<and>
      list_all (\<lambda>e. 0 \<le> balance e)
        (equity_curve (execute_trades symbol bars (initialize_backtest (Backtester bal))))"
  proof
    assume h: "0 \<le> bal \<and> list_all (\<lambda>b. 0 \<le> close b) bars"
    let ?s0 = "initialize_backtest (Backtester bal)"
    have s0: "cash_invariant ?s0" using h by (simp add: cash_invariant_initial)
    have e0: "list_all (\<lambda>e. 0 \<le> balance e) (equity_curve ?s0)"
      by (simp add: initialize_backtest_def)
    have all: "cash_invariant (execute_trades symbol bs ?s0) \<and>
        list_all (\<lambda>e. 0 \<le> balance e) (equity_curve (execute_trades symbol bs ?s0))"
      if "list_all (\<lambda>b. 0 \<le> close b) bs" for bs
    proof -
      from that have "list_all (\<lambda>b. 0 \<le> close b) (drop 50 bs)"
        by (auto simp: list_all_iff dest: in_set_dropD)
      with cash_invariant_fold [OF s0 _ e0, of "drop 50 bs" symbol]
      show ?thesis by (simp add: execute_trades_fold)
    qed
    from h have "list_all (\<lambda>b. 0 \<le> close b) (take n bars)"
      by (auto simp: list_all_iff dest: in_set_takeD)
    with all [of "take n bars"] all [of bars] h
    show "cash_invariant (execute_trades symbol (take n bars) ?s0) \<and>
      0 \<le> current_balance (execute_trades symbol (take n bars) ?s0) \<and>
      list_all (\<lambda>e. 0 \<le> balance e) (equity_curve (execute_trades symbol bars ?s0))"
      by (simp add: cash_invariant_def)
  qed
  from ops exact skip run show ?thesis by blast
qed

text \<open>
  Cash 10000 and a buy of 100 units at 100 costs exactly the balance: it is accepted and
  cash is 0. In the run that buys at 100 and sells at 110, cash is 0 after 51 rows and
  11000 at the end.
\<close>

theorem cash_never_negative_witness:
  "cash_invariant (Backtester 10000) \<and>
   (100::real) * of_int 100 = current_balance (Backtester 10000) \<and>
   current_balance (execute_buy 50 ''Date'' 100 100 (Backtester 10000)) = 0 \<and>
   cash_invariant (execute_buy 50 ''Date'' 100 100 (Backtester 10000)) \<and>
   list_all (\<lambda>b. 0 \<le> close b)
     (scenario_bars [(100, True, False), (110, False, False), (110, False, True)]) \<and>
   0 \<le> current_balance (execute_trades ''Date''
     (take 51 (scenario_bars [(100, True, False), (110, False, False), (110, False, True)]))
     (initialize_backtest (Backtester 10000))) \<and>
   list_all (\<lambda>e. 0 \<le> balance e) (equity_curve (execute_trades ''Date''
     (scenario_bars [(100, True, False), (110, False, False), (110, False, True)])
     (initialize_backtest (Backtester 10000))))"
proof -
  have c: "list_all (\<lambda>b. 0 \<le> close b)
      (scenario_bars [(100, True, False), (110, False, False), (110, False, True)])"
    by (simp add: scenario_bars_def idle_bars_def tail_bars_def list_all_iff)
  have i: "cash_invariant (Backtester 10000)"
    by (simp add: cash_invariant_def Backtester_def)
  from c i show ?thesis
    using cash_never_negative [where s = "Backtester 10000" and price = 100 and qty = 100
        and d = 50 and symbol = "''Date''" and bal = 10000 and n = 51
        and bars = "scenario_bars [(100, True, False), (110, False, False), (110, False, True)]"]
    by (simp add: Backtester_def)
qed

text \<open>
  The claim as stated, for every run with a balance that is not negative at the start:
  the source never looks at the sign of the price. From balance 0, a buy at close -1 costs
  -100, which does not exceed the balance, so it is applied and cash is 100; the sell at
  close -2 in the next bar adds the revenue -200, and the run ends with cash -100.
\<close>

theorem cash_negative_with_negative_close:
  "(0::real) \<le> initial_balance (Backtester 0) \<and>
   current_balance (execute_trades ''Date''
      (take 51 (scenario_bars [(- 1, True, False), (- 2, False, True)]))
      (initialize_backtest (Backtester 0))) = 100 \<and>
   current_balance (execute_trades ''Date''
      (scenario_bars [(- 1, True, False), (- 2, False, True)])
      (initialize_backtest (Backtester 0))) = - 100 \<and>
   \<not> 0 \<le> current_balance (execute_trades ''Date''
      (scenario_bars [(- 1, True, False), (- 2, False, True)])
      (initialize_backtest (Backtester 0)))"
proof -
  have "take 51 (scenario_bars [(- 1, True, False), (- 2, False, True)]) =
      scenario_bars [(- 1, True, False)]"
    by (simp add: scenario_bars_def idle_bars_def tail_bars_def)
  then have a: "current_balance (execute_trades ''Date''
      (take 51 (scenario_bars [(- 1, True, False), (- 2, False, True)]))
      (initialize_backtest (Backtester 0))) = 100"
    by (simp add: run_simps Let_def)
  have b: "current_balance (execute_trades ''Date''
      (scenario_bars [(- 1, True, False), (- 2, False, True)])
      (initialize_backtest (Backtester 0))) = - 100"
    by (simp add: run_simps Let_def)
  from a b show ?thesis by (simp add: Backtester_def)
qed

subsection \<open>C7: the empty equity curve\<close>

text \<open>
  Claim C7. With an empty equity curve, performance evaluation returns the failure value
  labelled \<open>No equity curve data\<close>, which carries no statistics; with a curve that is
  not empty it returns a report. A run over at most 50 rows records no equity point and
  so ends in this failure.
\<close>

theorem empty_curve_error:
  "(equity_curve s = [] \<longrightarrow> calculate_performance s = Inl (Error ''No equity curve data'')) \<and>
   (equity_curve s \<noteq> [] \<longrightarrow> \<not> isl (calculate_performance s)) \<and>
   (length bars \<le> 50 \<longrightarrow>
      calculate_performance (execute_trades symbol bars (initialize_backtest s)) =
        Inl (Error ''No equity curve data''))"
proof -
  have "length bars \<le> 50 \<longrightarrow>
      equity_curve (execute_trades symbol bars (initialize_backtest s)) = []"
    by (simp add: execute_trades_fold initialize_backtest_def)
  then show ?thesis by (simp add: calculate_performance_def Let_def)
qed

text \<open>A fresh state, and the run over the fifty warm-up rows alone.\<close>

theorem empty_curve_error_witness:
  "equity_curve (Backtester 100000) = [] \<and>
   calculate_performance (Backtester 100000) = Inl (Error ''No equity curve data'') \<and>
   length (scenario_bars []) \<le> 50 \<and>
   calculate_performance
     (execute_trades ''Date'' (scenario_bars []) (initialize_backtest (Backtester 100000))) =
     Inl (Error ''No equity curve data'')"
proof -
  have a: "equity_curve (Backtester 100000) = []" by (simp add: Backtester_def)
  have b: "length (scenario_bars []) \<le> 50"
    by (simp add: scenario_bars_def idle_bars_def tail_bars_def)
  from a b show ?thesis
    using empty_curve_error [where s = "Backtester 100000" and bars = "scenario_bars []"
        and symbol = "''Date''"]
    by simp
qed

subsection \<open>C4: the Sharpe guard\<close>

text \<open>
  Claim C4. For an equity curve that is not empty the report exists, and its Sharpe ratio
  is the annualized return divided by the volatility when the volatility is greater than
  0, and is the finite number 0 when the volatility is 0, and also whenever the test
  \<open>volatility > 0\<close> fails, as it does for a NaN volatility.
\<close>

theorem sharpe_guard:
  "equity_curve s \<noteq> [] \<Longrightarrow>
     \<exists>r. calculate_performance s = Inr r \<and>
       (fgt (volatility r) (Fin 0) \<longrightarrow>
          sharpe_ratio r = fdiv (annualized_return r) (volatility r)) \<and>
       (volatility r = Fin 0 \<longrightarrow> sharpe_ratio r = Fin 0 \<and> is_finite (sharpe_ratio r)) \<and>
       (\<not> fgt (volatility r) (Fin 0) \<longrightarrow> sharpe_ratio r = Fin 0)"
  by (simp add: calculate_performance_def Let_def sharpe_ratio_of_def)

text \<open>
  The run that buys at 100 and sees closes 110, 110 has equity 10000, 11000, 11000 and a
  positive volatility: its Sharpe ratio is the quotient. With closes 110, 121 the equity
  grows by one tenth per bar, the volatility is 0 and the Sharpe ratio is 0.
\<close>

theorem sharpe_guard_witness:
  "equity_curve (execute_trades ''Date''
      (scenario_bars [(100, True, False), (110, False, False), (110, False, True)])
      (initialize_backtest (Backtester 10000))) \<noteq> [] \<and>
   fgt (volatility (projr (calculate_performance (execute_trades ''Date''
      (scenario_bars [(100, True, False), (110, False, False), (110, False, True)])
      (initialize_backtest (Backtester 10000)))))) (Fin 0) \<and>
   sharpe_ratio (projr (calculate_performance (execute_trades ''Date''
      (scenario_bars [(100, True, False), (110, False, False), (110, False, True)])
      (initialize_backtest (Backtester 10000))))) =
     fdiv (annualized_return (projr (calculate_performance (execute_trades ''Date''
        (scenario_bars [(100, True, False), (110, False, False), (110, False, True)])
        (initialize_backtest (Backtester 10000))))))
      (volatility (projr (calculate_performance (execute_trades ''Date''
        (scenario_bars [(100, True, False), (110, False, False), (110, False, True)])
        (initialize_backtest (Backtester 10000)))))) \<and>
   volatility (projr (calculate_performance (execute_trades ''Date''
      (scenario_bars [(100, True, False), (110, False, False), (121, False, False)])
      (initialize_backtest (Backtester 10000))))) = Fin 0 \<and>
   sharpe_ratio (projr (calculate_performance (execute_trades ''Date''
      (scenario_bars [(100, True, False), (110, False, False), (121, False, False)])
      (initialize_backtest (Backtester 10000))))) = Fin 0"
proof -
  let ?R = "execute_trades ''Date''
      (scenario_bars [(100, True, False), (110, False, False), (110, False, True)])
      (initialize_backtest (Backtester 10000))"
  let ?S = "execute_trades ''Date''
      (scenario_bars [(100, True, False), (110, False, False), (121, False, False)])
      (initialize_backtest (Backtester 10000))"
  have ne: "equity_curve ?R \<noteq> []" by (simp add: rising_run)
  from sharpe_guard [OF ne] obtain r where r: "calculate_performance ?R = Inr r"
    and q: "fgt (volatility r) (Fin 0) \<longrightarrow>
      sharpe_ratio r = fdiv (annualized_return r) (volatility r)"
    by blast
  from r have "volatility r = volatility_of [10000, 11000, 11000]"
    by (auto simp: rising_run calculate_performance_def Let_def)
  with volatility_rising have p: "fgt (volatility r) (Fin 0)" by simp
  have ne': "equity_curve ?S \<noteq> []" by (simp add: steady_run)
  from sharpe_guard [OF ne'] obtain r' where r': "calculate_performance ?S = Inr r'"
    and q': "volatility r' = Fin 0 \<longrightarrow> sharpe_ratio r' = Fin 0 \<and> is_finite (sharpe_ratio r')"
    by blast
  from r' have "volatility r' = volatility_of [10000, 11000, 12100]"
    by (auto simp: steady_run calculate_performance_def Let_def)
  with volatility_steady have z: "volatility r' = Fin 0" by simp
  from p q ne r z q' r' show ?thesis by simp
qed

subsection \<open>C5: the divisor of the win rate\<close>

text \<open>
  Claim C5, as the code has it. For every report over a trade list that is not empty, with
  or without sells, the win rate is the number of trades with a realized P&L greater than
  0 (only sells have one) divided by the number of all trades, buys included. In a run
  without sells no trade has a realized P&L, so the win rate is 0, still over all trades.
\<close>

theorem win_rate_over_all_trades:
  "equity_curve s \<noteq> [] \<Longrightarrow> trades s \<noteq> [] \<Longrightarrow>
     \<exists>r. calculate_performance s = Inr r \<and>
       win_rate r =
         real (length (filter (\<lambda>t. case trade_pnl t of None \<Rightarrow> False | Some p \<Rightarrow> 0 < p)
                 (trades s))) /
         real (win_rate_denominator (trades s)) \<and>
       win_rate_denominator (trades s) = length (trades s) \<and>
       (\<not> has_pnl_column (trades s) \<longrightarrow> win_rate r = 0)"
proof -
  assume eq: "equity_curve s \<noteq> []" and ts: "trades s \<noteq> []"
  have "\<not> has_pnl_column ts \<Longrightarrow>
      filter (\<lambda>t. case trade_pnl t of None \<Rightarrow> False | Some p \<Rightarrow> 0 < p) ts = []" for ts
    by (auto simp: has_pnl_column_def list_ex_iff filter_empty_conv split: option.splits)
  then have w: "winning_trades ts =
      filter (\<lambda>t. case trade_pnl t of None \<Rightarrow> False | Some p \<Rightarrow> 0 < p) ts" for ts
    by (simp add: winning_trades_def)
  have n: "\<not> has_pnl_column (trades s) \<longrightarrow> winning_trades (trades s) = []"
    by (simp add: winning_trades_def)
  from eq ts n show ?thesis
    by (simp add: calculate_performance_def Let_def win_rate_of_def win_rate_denominator_def
        w [symmetric])
qed

text \<open>One buy and one winning sell: the win rate is 1 / 2, not 1 / 1.\<close>

theorem win_rate_over_all_trades_witness:
  "equity_curve (execute_trades ''Date''
      (scenario_bars [(100, True, False), (110, False, False), (110, False, True)])
      (initialize_backtest (Backtester 10000))) \<noteq> [] \<and>
   trades (execute_trades ''Date''
      (scenario_bars [(100, True, False), (110, False, False), (110, False, True)])
      (initialize_backtest (Backtester 10000))) =
     [BUY 50 ''Date'' 100 100 10000, SELL 52 ''Date'' 100 110 11000 1000] \<and>
   win_rate (projr (calculate_performance (execute_trades ''Date''
      (scenario_bars [(100, True, False), (110, False, False), (110, False, True)])
      (initialize_backtest (Backtester 10000))))) = 1 / 2"
proof -
  let ?R = "execute_trades ''Date''
      (scenario_bars [(100, True, False), (110, False, False), (110, False, True)])
      (initialize_backtest (Backtester 10000))"
  have ne: "equity_curve ?R \<noteq> []" by (simp add: rising_run)
  have ts: "trades ?R = [BUY 50 ''Date'' 100 100 10000, SELL 52 ''Date'' 100 110 11000 1000]"
    by (simp add: rising_run)
  then have tne: "trades ?R \<noteq> []" by simp
  from win_rate_over_all_trades [OF ne tne] obtain r where r: "calculate_performance ?R = Inr r"
    and q: "win_rate r =
         real (length (filter (\<lambda>t. case trade_pnl t of None \<Rightarrow> False | Some p \<Rightarrow> 0 < p)
                 (trades ?R))) /
         real (win_rate_denominator (trades ?R))"
    by blast
  from q have "win_rate r = 1 / 2" by (simp add: ts win_rate_denominator_def)
  with ne ts r show ?thesis by simp
qed

text \<open>
  The claim as stated, for a run without sells: the buys are left out of the divisor. The
  trade list of the flat-series scenario is a single buy; the divisor the code uses is 1,
  the divisor without the trades that have no realized P&L would be 0.
\<close>

theorem win_rate_denominator_counts_buys:
  "win_rate_denominator [BUY 50 ''Date'' 100 100 10000] \<noteq>
     spec_win_rate_denominator [BUY 50 ''Date'' 100 100 10000]"
  by (simp add: win_rate_denominator_def spec_win_rate_denominator_def)

subsection \<open>C6: the sign of the maximum drawdown\<close>

text \<open>
  Claim C6, as the code has it. For an equity curve that is not empty and has an equity
  value other than 0, the reported maximum drawdown, the least entry other than NaN of the
  column (equity - running peak) / running peak, is at most 0 (and so not NaN); it is
  exactly the finite number 0 when the equity values never decrease.
\<close>

theorem max_drawdown_sign:
  "equity_curve s \<noteq> [] \<Longrightarrow> \<exists>e\<in>set (equity_curve s). equity e \<noteq> 0 \<Longrightarrow>
     \<exists>r. calculate_performance s = Inr r \<and>
       max_drawdown r = series_min (drawdown_of (map equity (equity_curve s))) \<and>
       fle (max_drawdown r) (Fin 0) \<and>
       (sorted (map equity (equity_curve s)) \<longrightarrow> max_drawdown r = Fin 0)"
proof -
  assume ne: "equity_curve s \<noteq> []" and nz: "\<exists>e\<in>set (equity_curve s). equity e \<noteq> 0"
  let ?eq = "map equity (equity_curve s)"
  from nz have nz': "\<exists>e\<in>set ?eq. e \<noteq> 0" by auto
  have a: "fle (max_drawdown_of ?eq) (Fin 0)"
    using nz' by (rule max_drawdown_nonpositive)
  have b: "sorted ?eq \<longrightarrow> max_drawdown_of ?eq = Fin 0"
    using nz' by (simp add: max_drawdown_sorted)
  from ne a b show ?thesis
    by (simp add: calculate_performance_def Let_def max_drawdown_of_def)
qed

text \<open>
  Equity 10000, 9000, 11000 has maximum drawdown -1/10; equity 10000, 11000, 11000 never
  decreases and has maximum drawdown 0.
\<close>

theorem max_drawdown_sign_witness:
  "max_drawdown (projr (calculate_performance (execute_trades ''Date''
      (scenario_bars [(100, True, False), (90, False, False), (110, False, True)])
      (initialize_backtest (Backtester 10000))))) = Fin (- (1 / 10)) \<and>
   fle (max_drawdown (projr (calculate_performance (execute_trades ''Date''
      (scenario_bars [(100, True, False), (90, False, False), (110, False, True)])
      (initialize_backtest (Backtester 10000)))))) (Fin 0) \<and>
   sorted (map equity (equity_curve (execute_trades ''Date''
      (scenario_bars [(100, True, False), (110, False, False), (110, False, True)])
      (initialize_backtest (Backtester 10000))))) \<and>
   max_drawdown (projr (calculate_performance (execute_trades ''Date''
      (scenario_bars [(100, True, False), (110, False, False), (110, False, True)])
      (initialize_backtest (Backtester 10000))))) = Fin 0"
proof -
  let ?D = "execute_trades ''Date''
      (scenario_bars [(100, True, False), (90, False, False), (110, False, True)])
      (initialize_backtest (Backtester 10000))"
  let ?R = "execute_trades ''Date''
      (scenario_bars [(100, True, False), (110, False, False), (110, False, True)])
      (initialize_backtest (Backtester 10000))"
  have dne: "equity_curve ?D \<noteq> []" and dnz: "\<exists>e\<in>set (equity_curve ?D). equity e \<noteq> 0"
    by (simp_all add: dipping_run)
  have rne: "equity_curve ?R \<noteq> []" and rnz: "\<exists>e\<in>set (equity_curve ?R). equity e \<noteq> 0"
    by (simp_all add: rising_run)
  have rs: "sorted (map equity (equity_curve ?R))" by (simp add: rising_run)
  from max_drawdown_sign [OF dne dnz] obtain d where d: "calculate_performance ?D = Inr d"
    and dm: "max_drawdown d = series_min (drawdown_of (map equity (equity_curve ?D)))"
    and dle: "fle (max_drawdown d) (Fin 0)"
    by blast
  from dm have dv: "max_drawdown d = Fin (- (1 / 10))"
    using max_drawdown_dipping by (simp add: dipping_run max_drawdown_of_def)
  from max_drawdown_sign [OF rne rnz] rs obtain r where r: "calculate_performance ?R = Inr r"
    and rv: "max_drawdown r = Fin 0"
    by blast
  from d dv dle r rv rs show ?thesis by simp
qed

text \<open>
  The claim as stated, for every curve that is not empty: with initial balance 0 and one
  row past the warm-up, the curve is the single point with equity 0, the running peak is
  0, the drawdown is \<open>0 / 0\<close>, and the reported maximum drawdown is NaN, which is not
  at most 0.
\<close>

theorem max_drawdown_zero_curve_nan:
  "\<not> isl (calculate_performance
      (execute_trades ''Date'' (scenario_bars [(100, False, False)])
         (initialize_backtest (Backtester 0)))) \<and>
   max_drawdown (projr (calculate_performance
      (execute_trades ''Date'' (scenario_bars [(100, False, False)])
         (initialize_backtest (Backtester 0))))) = NaN \<and>
   \<not> fle (max_drawdown (projr (calculate_performance
      (execute_trades ''Date'' (scenario_bars [(100, False, False)])
         (initialize_backtest (Backtester 0)))))) (Fin 0)"
proof -
  have run: "execute_trades ''Date'' (scenario_bars [(100, False, False)])
      (initialize_backtest (Backtester 0)) =
    \<lparr>initial_balance = 0, current_balance = 0, positions = [], trades = [],
     equity_curve = [\<lparr>date = 50, balance = 0, portfolio_value = 0, equity = 0\<rparr>]\<rparr>"
    by (simp add: run_simps)
  show ?thesis
    by (simp add: run calculate_performance_def Let_def max_drawdown_of_def drawdown_of_def
        series_min_def inf_of_sign_def)
qed

end
